theory Spec2Isabelle
  imports Main "HOL-Library.Word"
begin

section \<open>Runtime support routines of \<^verbatim>\<open>src/runtime_support.h\<close>\<close>

text \<open>
  The header defines the inline entry points that managed code calls into: allocation
  (\<^verbatim>\<open>AllocObjectFromCode\<close>, \<^verbatim>\<open>AllocArrayFromCode\<close>), the fast-path member
  lookups (\<^verbatim>\<open>FindFieldFast\<close>, \<^verbatim>\<open>FindMethodFast\<close>), the monitor-release guard
  (\<^verbatim>\<open>UnlockJniSynchronizedMethod\<close>) and the suspend check (\<^verbatim>\<open>CheckSuspend\<close>).
  Everything these routines call (classes, dex caches, the class linker, the thread) is
  declared in other headers. The data they read is modelled below from the data model of
  the specification; the services they call are parameters of the model, so every theorem
  holds whatever those services do.
\<close>

subsection \<open>Data model\<close>

type_synonym class_ref = nat
type_synonym field_ref = nat
type_synonym method_ref = nat
type_synonym object_ref = nat
type_synonym dex_cache_ref = nat
type_synonym jobject = nat

text \<open>
  Modelled from the spec: the initialization state of a class, declared in
  \<^verbatim>\<open>mirror/class.h\<close> (uninitialized / initializing / initialized / erroneous).
\<close>

datatype class_status = Uninitialized | Initializing | Initialized | Erroneous

text \<open>
  Modelled from the spec: the access flags of a member (static/instance, final,
  visibility), declared in \<^verbatim>\<open>modifiers.h\<close>.
\<close>

datatype visibility = Public | Protected | PackagePrivate | Private

record access_flags =
  acc_static :: bool
  acc_final :: bool
  acc_visibility :: visibility

text \<open>
  Modelled from the spec: a loaded class (\<^verbatim>\<open>mirror::Class\<close>) with its initialization
  state, instantiability flag, array-class flag, superclass (null for the root class),
  virtual dispatch table and the resolution cache it owns.
\<close>

record mirror_Class =
  status :: class_status
  instantiable :: bool
  array_class :: bool
  super_class :: "class_ref option"
  vtable :: "method_ref list"
  dex_cache :: dex_cache_ref

text \<open>
  Modelled from the spec: the resolution cache (\<^verbatim>\<open>DexCache\<close>), an index-addressed table
  from constant-pool indices (\<^verbatim>\<open>uint32_t\<close>) to resolved entities; an empty slot is null.
\<close>

record DexCache =
  resolved_types :: "32 word \<Rightarrow> class_ref option"
  resolved_fields :: "32 word \<Rightarrow> field_ref option"
  resolved_methods :: "32 word \<Rightarrow> method_ref option"

text \<open>
  Modelled from the spec: a resolved field (\<^verbatim>\<open>mirror::Field\<close>) with its declaring class,
  access flags, and the primitive-vs-object classification and storage size that
  \<^verbatim>\<open>FieldHelper\<close> reads from its type.
\<close>

record mirror_Field =
  field_declaring_class :: class_ref
  field_access_flags :: access_flags
  field_is_primitive_type :: bool
  field_size :: nat

text \<open>
  Modelled from the spec: a resolved method (\<^verbatim>\<open>mirror::AbstractMethod\<close>) with its
  declaring class, access flags, slot index in the dispatch table, and the dex cache whose
  resolved-types table the method points to.
\<close>

record mirror_AbstractMethod =
  method_declaring_class :: class_ref
  method_access_flags :: access_flags
  method_index :: nat
  method_dex_cache :: dex_cache_ref

text \<open>
  The managed heap. A reference always designates an entity; a pointer that can be null
  is an \<open>option\<close>.
\<close>

record heap =
  class_at :: "class_ref \<Rightarrow> mirror_Class"
  field_at :: "field_ref \<Rightarrow> mirror_Field"
  method_at :: "method_ref \<Rightarrow> mirror_AbstractMethod"
  dex_cache_at :: "dex_cache_ref \<Rightarrow> DexCache"
  object_class :: "object_ref \<Rightarrow> class_ref"

text \<open>A pending exception (\<^verbatim>\<open>mirror::Throwable\<close>): class descriptor and message.\<close>

datatype throwable = Throwable string string

text \<open>Modelled from the spec: the request flags of a thread, declared in \<^verbatim>\<open>thread.h\<close>.\<close>

datatype ThreadFlag = kSuspendRequest | kCheckpointRequest

text \<open>
  Modelled from the spec: the per-thread state these routines touch, the single
  pending-exception slot and the request flags.
\<close>

record thread =
  exception :: "throwable option"
  flags :: "ThreadFlag \<Rightarrow> bool"

text \<open>Modelled from the spec: the dispatch kinds of \<^verbatim>\<open>invoke_type.h\<close>.\<close>

datatype InvokeType = kStatic | kDirect | kVirtual | kSuper | kInterface

text \<open>Type of find field operation for fast and slow case.\<close>

datatype FindFieldType =
    InstanceObjectRead
  | InstanceObjectWrite
  | InstancePrimitiveRead
  | InstancePrimitiveWrite
  | StaticObjectRead
  | StaticObjectWrite
  | StaticPrimitiveRead
  | StaticPrimitiveWrite

subsection \<open>Services and their call log\<close>

text \<open>
  The services of the class linker, the allocator, the monitor and the thread that the
  routines call. Each is a parameter: a query reads the heap, an effectful service takes
  the heap and the thread and returns them updated.
\<close>

type_synonym world = "heap \<times> thread"

record services =
  kEnableDChecks :: bool
  svc_CanAccess :: "heap \<Rightarrow> class_ref \<Rightarrow> class_ref \<Rightarrow> bool"
  svc_CanAccessMember :: "heap \<Rightarrow> class_ref \<Rightarrow> class_ref \<Rightarrow> access_flags \<Rightarrow> bool"
  svc_CheckIncompatibleClassChange :: "heap \<Rightarrow> method_ref \<Rightarrow> InvokeType \<Rightarrow> bool"
  svc_FindVirtualMethodForInterface :: "heap \<Rightarrow> class_ref \<Rightarrow> method_ref \<Rightarrow> method_ref option"
  svc_PrettyDescriptor :: "heap \<Rightarrow> class_ref \<Rightarrow> string"
  svc_DecodeJObject :: "heap \<Rightarrow> thread \<Rightarrow> jobject \<Rightarrow> object_ref option"
  svc_ResolveType :: "32 word \<Rightarrow> method_ref \<Rightarrow> world \<Rightarrow> class_ref option \<times> world"
  svc_EnsureInitialized :: "class_ref \<Rightarrow> bool \<Rightarrow> bool \<Rightarrow> world \<Rightarrow> bool \<times> world"
  svc_AllocObject :: "class_ref \<Rightarrow> world \<Rightarrow> object_ref option \<times> world"
  svc_Array_Alloc :: "class_ref \<Rightarrow> 32 word \<Rightarrow> world \<Rightarrow> object_ref option \<times> world"
  svc_ThrowIllegalAccessErrorClass :: "class_ref \<Rightarrow> class_ref \<Rightarrow> world \<Rightarrow> unit \<times> world"
  svc_MonitorExit :: "object_ref \<Rightarrow> world \<Rightarrow> unit \<times> world"
  svc_RunCheckpointFunction :: "world \<Rightarrow> unit \<times> world"
  svc_FullSuspendCheck :: "world \<Rightarrow> unit \<times> world"

text \<open>
  A call of an effectful service, as recorded in the call log. Only the routines of this
  file write the log: a service never sees it.
\<close>

datatype call =
    CallResolveType "32 word" method_ref
  | CallEnsureInitialized class_ref
  | CallAllocObject class_ref
  | CallArrayAlloc class_ref "32 word"
  | CallThrowIllegalAccessErrorClass class_ref class_ref
  | CallMonitorExit object_ref
  | CallRunCheckpointFunction
  | CallFullSuspendCheck

record state =
  heap :: heap
  self :: thread
  calls :: "call list"

text \<open>How a routine ends without returning: a failed check, a fatal log, a null dereference.\<close>

datatype abort = CheckFailed | DCheckFailed | LogFatal | NullPointerDereference

type_synonym 'a result = "abort + ('a \<times> state)"

definition invoke :: "call \<Rightarrow> (world \<Rightarrow> 'a \<times> world) \<Rightarrow> state \<Rightarrow> 'a \<times> state" where
  "invoke c f s =
     (case f (heap s, self s) of
        (r, (h, t)) \<Rightarrow> (r, \<lparr>heap = h, self = t, calls = calls s @ [c]\<rparr>))"

definition ResolveType :: "services \<Rightarrow> 32 word \<Rightarrow> method_ref \<Rightarrow> state \<Rightarrow> class_ref option \<times> state" where
  "ResolveType sv type_idx method = invoke (CallResolveType type_idx method) (svc_ResolveType sv type_idx method)"

definition EnsureInitialized :: "services \<Rightarrow> class_ref \<Rightarrow> bool \<Rightarrow> bool \<Rightarrow> state \<Rightarrow> bool \<times> state" where
  "EnsureInitialized sv klass can_run_clinit can_init_statics =
     invoke (CallEnsureInitialized klass) (svc_EnsureInitialized sv klass can_run_clinit can_init_statics)"

definition AllocObject :: "services \<Rightarrow> class_ref \<Rightarrow> state \<Rightarrow> object_ref option \<times> state" where
  "AllocObject sv klass = invoke (CallAllocObject klass) (svc_AllocObject sv klass)"

definition Array_Alloc :: "services \<Rightarrow> class_ref \<Rightarrow> 32 word \<Rightarrow> state \<Rightarrow> object_ref option \<times> state" where
  "Array_Alloc sv klass component_count =
     invoke (CallArrayAlloc klass component_count) (svc_Array_Alloc sv klass component_count)"

definition ThrowIllegalAccessErrorClass :: "services \<Rightarrow> class_ref \<Rightarrow> class_ref \<Rightarrow> state \<Rightarrow> state" where
  "ThrowIllegalAccessErrorClass sv referrer accessed s =
     snd (invoke (CallThrowIllegalAccessErrorClass referrer accessed)
            (svc_ThrowIllegalAccessErrorClass sv referrer accessed) s)"

definition MonitorExit :: "services \<Rightarrow> object_ref \<Rightarrow> state \<Rightarrow> state" where
  "MonitorExit sv obj s = snd (invoke (CallMonitorExit obj) (svc_MonitorExit sv obj) s)"

definition RunCheckpointFunction :: "services \<Rightarrow> state \<Rightarrow> state" where
  "RunCheckpointFunction sv s = snd (invoke CallRunCheckpointFunction (svc_RunCheckpointFunction sv) s)"

definition FullSuspendCheck :: "services \<Rightarrow> state \<Rightarrow> state" where
  "FullSuspendCheck sv s = snd (invoke CallFullSuspendCheck (svc_FullSuspendCheck sv) s)"

subsection \<open>Thread primitives\<close>

text \<open>
  Modelled from the spec: the operations of \<^verbatim>\<open>thread.h\<close> on the pending-exception slot
  (test, read, clear, set) and on the request flags (read, clear).
\<close>

definition IsExceptionPending :: "state \<Rightarrow> bool" where
  "IsExceptionPending s = (exception (self s) \<noteq> None)"

definition GetException :: "state \<Rightarrow> throwable option" where
  "GetException s = exception (self s)"

definition ClearException :: "state \<Rightarrow> state" where
  "ClearException s = s\<lparr>self := (self s)\<lparr>exception := None\<rparr>\<rparr>"

definition SetException :: "throwable \<Rightarrow> state \<Rightarrow> state" where
  "SetException e s = s\<lparr>self := (self s)\<lparr>exception := Some e\<rparr>\<rparr>"

text \<open>
  Modelled from the spec: \<^verbatim>\<open>Thread::ThrowNewException\<close> makes an exception of the given
  class with the given message the pending exception of the thread. The slot holds one
  exception; what the runtime does with one that is already pending is not in this header,
  and here the new exception takes the slot.
\<close>

definition ThrowNewException :: "string \<Rightarrow> string \<Rightarrow> state \<Rightarrow> state" where
  "ThrowNewException descriptor msg s = SetException (Throwable descriptor msg) s"

definition ReadFlag :: "ThreadFlag \<Rightarrow> state \<Rightarrow> bool" where
  "ReadFlag flag s = flags (self s) flag"

definition AtomicClearFlag :: "ThreadFlag \<Rightarrow> state \<Rightarrow> state" where
  "AtomicClearFlag flag s = s\<lparr>self := (self s)\<lparr>flags := (flags (self s))(flag := False)\<rparr>\<rparr>"

text \<open>The \<^verbatim>\<open>%d\<close> conversion of \<^verbatim>\<open>ThrowNewExceptionF\<close>: a signed decimal numeral.\<close>

definition digit_char :: "nat \<Rightarrow> char" where
  "digit_char d = ''0123456789'' ! d"

fun decimal :: "nat \<Rightarrow> string" where
  "decimal n = (if n < 10 then [digit_char n] else decimal (n div 10) @ [digit_char (n mod 10)])"

definition format_d :: "int \<Rightarrow> string" where
  "format_d i = (if i < 0 then CHR ''-'' # decimal (nat (- i)) else decimal (nat i))"

text \<open>
  Reading a signed decimal numeral back. The routines do not do this: it serves to state
  that a message carries a value.
\<close>

definition digit_value :: "char \<Rightarrow> nat" where
  "digit_value c = length (takeWhile (\<lambda>d. d \<noteq> c) ''0123456789'')"

definition parse_decimal :: "string \<Rightarrow> nat" where
  "parse_decimal cs = foldl (\<lambda>n c. 10 * n + digit_value c) 0 cs"

definition parse_d :: "string \<Rightarrow> int" where
  "parse_d cs =
     (case cs of
        [] \<Rightarrow> 0
      | c # rest \<Rightarrow> if c = CHR ''-'' then - int (parse_decimal rest) else int (parse_decimal cs))"

definition ThrowNewExceptionF_d :: "string \<Rightarrow> 32 word \<Rightarrow> state \<Rightarrow> state" where
  "ThrowNewExceptionF_d descriptor value s = ThrowNewException descriptor (format_d (sint value)) s"

subsection \<open>Heap accessors\<close>

text \<open>
  Modelled from the spec: the getters of \<^verbatim>\<open>mirror::Class\<close> and
  \<^verbatim>\<open>mirror::AbstractMethod\<close> that the allocation routines call. Each reads one attribute
  of the data model.
\<close>

definition Method_GetDeclaringClass :: "heap \<Rightarrow> method_ref \<Rightarrow> class_ref" where
  "Method_GetDeclaringClass h m = method_declaring_class (method_at h m)"

definition GetDexCacheResolvedTypes :: "heap \<Rightarrow> method_ref \<Rightarrow> 32 word \<Rightarrow> class_ref option" where
  "GetDexCacheResolvedTypes h m = resolved_types (dex_cache_at h (method_dex_cache (method_at h m)))"

definition IsInstantiable :: "heap \<Rightarrow> class_ref \<Rightarrow> bool" where
  "IsInstantiable h c = instantiable (class_at h c)"

definition IsArrayClass :: "heap \<Rightarrow> class_ref \<Rightarrow> bool" where
  "IsArrayClass h c = array_class (class_at h c)"

definition IsInitialized :: "heap \<Rightarrow> class_ref \<Rightarrow> bool" where
  "IsInitialized h c = (status (class_at h c) = Initialized)"

text \<open>Modelled from the spec: a class is "at least initializing".\<close>

definition IsInitializing :: "heap \<Rightarrow> class_ref \<Rightarrow> bool" where
  "IsInitializing h c = (status (class_at h c) = Initializing \<or> status (class_at h c) = Initialized)"

subsection \<open>Allocation\<close>

text \<open>
  \<^verbatim>\<open>DCHECK(self->IsExceptionPending()); return NULL;\<close> the debug-build assertion that
  guards a failure return.
\<close>

definition dcheck_exception_pending :: "services \<Rightarrow> state \<Rightarrow> 'a option result" where
  "dcheck_exception_pending sv s =
     (if kEnableDChecks sv \<and> \<not> IsExceptionPending s then Inl DCheckFailed else Inr (None, s))"

text \<open>
  Lines 69 to 86 of \<^verbatim>\<open>AllocObjectFromCode\<close>: with the class in hand, the optional access
  check, the initialization of a class that is not yet initialized, and the allocation.
\<close>

definition AllocObjectFromCode_resolved ::
  "services \<Rightarrow> method_ref \<Rightarrow> bool \<Rightarrow> class_ref \<Rightarrow> state \<Rightarrow> object_ref option result" where
  "AllocObjectFromCode_resolved sv method access_check klass s =
     (if access_check \<and> \<not> IsInstantiable (heap s) klass then
        Inr (None, ThrowNewException ''Ljava/lang/InstantiationError;''
                     (svc_PrettyDescriptor sv (heap s) klass) s)
      else if access_check \<and>
              \<not> svc_CanAccess sv (heap s) (Method_GetDeclaringClass (heap s) method) klass then
        Inr (None, ThrowIllegalAccessErrorClass sv (Method_GetDeclaringClass (heap s) method) klass s)
      else if IsInitialized (heap s) klass then
        Inr (AllocObject sv klass s)
      else
        (case EnsureInitialized sv klass True True s of
           (False, s1) \<Rightarrow> dcheck_exception_pending sv s1
         | (True, s1) \<Rightarrow> Inr (AllocObject sv klass s1)))"

text \<open>
  Given the context of a calling Method, use its DexCache to resolve a type to a Class. If
  it cannot be resolved, throw an error. If it can, use it to create an instance. When
  verification/compiler hasn't been able to verify access, optionally perform an access
  check.
\<close>

definition AllocObjectFromCode ::
  "services \<Rightarrow> 32 word \<Rightarrow> method_ref \<Rightarrow> bool \<Rightarrow> state \<Rightarrow> object_ref option result" where
  "AllocObjectFromCode sv type_idx method access_check s =
     (case GetDexCacheResolvedTypes (heap s) method type_idx of
        None \<Rightarrow>
          (case ResolveType sv type_idx method s of
             (None, s1) \<Rightarrow> dcheck_exception_pending sv s1
           | (Some klass, s1) \<Rightarrow> AllocObjectFromCode_resolved sv method access_check klass s1)
      | Some klass \<Rightarrow> AllocObjectFromCode_resolved sv method access_check klass s)"

text \<open>
  Lines 110 to 117 of \<^verbatim>\<open>AllocArrayFromCode\<close>: with the class in hand, the optional access
  check and the allocation.
\<close>

definition AllocArrayFromCode_resolved ::
  "services \<Rightarrow> method_ref \<Rightarrow> 32 word \<Rightarrow> bool \<Rightarrow> class_ref \<Rightarrow> state \<Rightarrow> object_ref option result" where
  "AllocArrayFromCode_resolved sv method component_count access_check klass s =
     (if access_check \<and>
         \<not> svc_CanAccess sv (heap s) (Method_GetDeclaringClass (heap s) method) klass then
        Inr (None, ThrowIllegalAccessErrorClass sv (Method_GetDeclaringClass (heap s) method) klass s)
      else Inr (Array_Alloc sv klass component_count s))"

text \<open>
  Given the context of a calling Method, use its DexCache to resolve a type to an array
  Class. If it cannot be resolved, throw an error. If it can, use it to create an array.
  The \<^verbatim>\<open>CHECK\<close> that the class is an array class stands inside the branch of the cache
  miss.
\<close>

definition AllocArrayFromCode ::
  "services \<Rightarrow> 32 word \<Rightarrow> method_ref \<Rightarrow> 32 word \<Rightarrow> bool \<Rightarrow> state \<Rightarrow> object_ref option result" where
  "AllocArrayFromCode sv type_idx method component_count access_check s =
     (if sint component_count < 0 then
        Inr (None, ThrowNewExceptionF_d ''Ljava/lang/NegativeArraySizeException;'' component_count s)
      else
        (case GetDexCacheResolvedTypes (heap s) method type_idx of
           None \<Rightarrow>
             (case ResolveType sv type_idx method s of
                (None, s1) \<Rightarrow> dcheck_exception_pending sv s1
              | (Some klass, s1) \<Rightarrow>
                  if \<not> IsArrayClass (heap s1) klass then Inl CheckFailed
                  else AllocArrayFromCode_resolved sv method component_count access_check klass s1)
         | Some klass \<Rightarrow>
             AllocArrayFromCode_resolved sv method component_count access_check klass s))"

subsection \<open>Fast-path field lookup\<close>

text \<open>
  The \<^verbatim>\<open>switch\<close> of \<^verbatim>\<open>FindFieldFast\<close> over the kind of access. Its \<^verbatim>\<open>default\<close> branch
  (a fatal log) has no counterpart: the eight kinds are all the values of the type.
\<close>

fun is_primitive :: "FindFieldType \<Rightarrow> bool" where
  "is_primitive InstanceObjectRead = False"
| "is_primitive InstanceObjectWrite = False"
| "is_primitive InstancePrimitiveRead = True"
| "is_primitive InstancePrimitiveWrite = True"
| "is_primitive StaticObjectRead = False"
| "is_primitive StaticObjectWrite = False"
| "is_primitive StaticPrimitiveRead = True"
| "is_primitive StaticPrimitiveWrite = True"

fun is_set :: "FindFieldType \<Rightarrow> bool" where
  "is_set InstanceObjectRead = False"
| "is_set InstanceObjectWrite = True"
| "is_set InstancePrimitiveRead = False"
| "is_set InstancePrimitiveWrite = True"
| "is_set StaticObjectRead = False"
| "is_set StaticObjectWrite = True"
| "is_set StaticPrimitiveRead = False"
| "is_set StaticPrimitiveWrite = True"

fun is_static :: "FindFieldType \<Rightarrow> bool" where
  "is_static InstanceObjectRead = False"
| "is_static InstanceObjectWrite = False"
| "is_static InstancePrimitiveRead = False"
| "is_static InstancePrimitiveWrite = False"
| "is_static StaticObjectRead = True"
| "is_static StaticObjectWrite = True"
| "is_static StaticPrimitiveRead = True"
| "is_static StaticPrimitiveWrite = True"

text \<open>
  Modelled from the spec: the getters of the dex cache, of \<^verbatim>\<open>mirror::Field\<close> and of
  \<^verbatim>\<open>FieldHelper\<close> that the field lookup calls.
\<close>

definition GetDexCache :: "heap \<Rightarrow> class_ref \<Rightarrow> DexCache" where
  "GetDexCache h c = dex_cache_at h (dex_cache (class_at h c))"

definition GetResolvedField :: "DexCache \<Rightarrow> 32 word \<Rightarrow> field_ref option" where
  "GetResolvedField dc field_idx = resolved_fields dc field_idx"

definition GetResolvedMethod :: "DexCache \<Rightarrow> 32 word \<Rightarrow> method_ref option" where
  "GetResolvedMethod dc method_idx = resolved_methods dc method_idx"

definition Field_GetDeclaringClass :: "heap \<Rightarrow> field_ref \<Rightarrow> class_ref" where
  "Field_GetDeclaringClass h f = field_declaring_class (field_at h f)"

definition Field_GetAccessFlags :: "heap \<Rightarrow> field_ref \<Rightarrow> access_flags" where
  "Field_GetAccessFlags h f = field_access_flags (field_at h f)"

definition Field_IsStatic :: "heap \<Rightarrow> field_ref \<Rightarrow> bool" where
  "Field_IsStatic h f = acc_static (Field_GetAccessFlags h f)"

definition Field_IsFinal :: "heap \<Rightarrow> field_ref \<Rightarrow> bool" where
  "Field_IsFinal h f = acc_final (Field_GetAccessFlags h f)"

definition FieldHelper_IsPrimitiveType :: "heap \<Rightarrow> field_ref \<Rightarrow> bool" where
  "FieldHelper_IsPrimitiveType h f = field_is_primitive_type (field_at h f)"

definition FieldHelper_FieldSize :: "heap \<Rightarrow> field_ref \<Rightarrow> nat" where
  "FieldHelper_FieldSize h f = field_size (field_at h f)"

text \<open>Fast path field resolution that can't initialize classes or throw exceptions.\<close>

definition FindFieldFast ::
  "services \<Rightarrow> 32 word \<Rightarrow> method_ref \<Rightarrow> FindFieldType \<Rightarrow> nat \<Rightarrow> state \<Rightarrow> field_ref option result" where
  "FindFieldFast sv field_idx referrer type expected_size s =
     (case GetResolvedField (GetDexCache (heap s) (Method_GetDeclaringClass (heap s) referrer)) field_idx of
        None \<Rightarrow> Inr (None, s)
      | Some resolved_field \<Rightarrow>
          (let fields_class = Field_GetDeclaringClass (heap s) resolved_field;
               referring_class = Method_GetDeclaringClass (heap s) referrer
           in
             if \<not> IsInitializing (heap s) fields_class then Inr (None, s)
             else if Field_IsStatic (heap s) resolved_field \<noteq> is_static type then Inr (None, s)
             else if \<not> svc_CanAccess sv (heap s) referring_class fields_class \<or>
                     \<not> svc_CanAccessMember sv (heap s) referring_class fields_class
                          (Field_GetAccessFlags (heap s) resolved_field) \<or>
                     (is_set type \<and> Field_IsFinal (heap s) resolved_field \<and>
                      fields_class \<noteq> referring_class)
             then Inr (None, s)
             else if FieldHelper_IsPrimitiveType (heap s) resolved_field \<noteq> is_primitive type \<or>
                     FieldHelper_FieldSize (heap s) resolved_field \<noteq> expected_size
             then Inr (None, s)
             else Inr (Some resolved_field, s)))"

subsection \<open>Fast-path method lookup\<close>

text \<open>
  Modelled from the spec: the getters of methods, objects and classes that the method
  lookup calls.
\<close>

definition Method_GetAccessFlags :: "heap \<Rightarrow> method_ref \<Rightarrow> access_flags" where
  "Method_GetAccessFlags h m = method_access_flags (method_at h m)"

definition GetMethodIndex :: "heap \<Rightarrow> method_ref \<Rightarrow> nat" where
  "GetMethodIndex h m = method_index (method_at h m)"

definition GetClass :: "heap \<Rightarrow> object_ref \<Rightarrow> class_ref" where
  "GetClass h obj = object_class h obj"

definition GetSuperClass :: "heap \<Rightarrow> class_ref \<Rightarrow> class_ref option" where
  "GetSuperClass h c = super_class (class_at h c)"

definition GetVTable :: "heap \<Rightarrow> class_ref \<Rightarrow> method_ref list" where
  "GetVTable h c = vtable (class_at h c)"

text \<open>
  Modelled from the spec: the dispatch table is an ordered sequence of resolved methods
  read by slot index (\<^verbatim>\<open>ObjectArray::Get\<close>); a slot outside the table reads as null.
\<close>

definition Get :: "method_ref list \<Rightarrow> nat \<Rightarrow> method_ref option" where
  "Get table i = (if i < length table then Some (table ! i) else None)"

text \<open>
  Fast path method resolution that can't throw exceptions. The receiver of an interface or
  virtual call and the superclass of a super call are dereferenced: a null there ends the
  call. After the four other kinds, the last branch is the virtual one
  (\<^verbatim>\<open>DCHECK(type == kVirtual)\<close> holds there).
\<close>

definition FindMethodFast ::
  "services \<Rightarrow> 32 word \<Rightarrow> object_ref option \<Rightarrow> method_ref \<Rightarrow> bool \<Rightarrow> InvokeType \<Rightarrow> state
     \<Rightarrow> method_ref option result" where
  "FindMethodFast sv method_idx this_object referrer access_check type s =
     (let is_direct = (type = kStatic \<or> type = kDirect) in
      if this_object = None \<and> \<not> is_direct then Inr (None, s)
      else
        (case GetResolvedMethod (GetDexCache (heap s) (Method_GetDeclaringClass (heap s) referrer)) method_idx of
           None \<Rightarrow> Inr (None, s)
         | Some resolved_method \<Rightarrow>
             if access_check \<and> svc_CheckIncompatibleClassChange sv (heap s) resolved_method type
             then Inr (None, s)
             else if access_check \<and>
                     (\<not> svc_CanAccess sv (heap s) (Method_GetDeclaringClass (heap s) referrer)
                          (Method_GetDeclaringClass (heap s) resolved_method) \<or>
                      \<not> svc_CanAccessMember sv (heap s) (Method_GetDeclaringClass (heap s) referrer)
                          (Method_GetDeclaringClass (heap s) resolved_method)
                          (Method_GetAccessFlags (heap s) resolved_method))
             then Inr (None, s)
             else if type = kInterface then
               (case this_object of
                  None \<Rightarrow> Inl NullPointerDereference
                | Some obj \<Rightarrow>
                    Inr (svc_FindVirtualMethodForInterface sv (heap s) (GetClass (heap s) obj)
                           resolved_method, s))
             else if is_direct then Inr (Some resolved_method, s)
             else if type = kSuper then
               (case GetSuperClass (heap s) (Method_GetDeclaringClass (heap s) referrer) of
                  None \<Rightarrow> Inl NullPointerDereference
                | Some super \<Rightarrow>
                    Inr (Get (GetVTable (heap s) super) (GetMethodIndex (heap s) resolved_method), s))
             else
               (case this_object of
                  None \<Rightarrow> Inl NullPointerDereference
                | Some obj \<Rightarrow>
                    Inr (Get (GetVTable (heap s) (GetClass (heap s) obj))
                           (GetMethodIndex (heap s) resolved_method), s))))"

text \<open>
  The final step of the method lookup in the words of the specification: static and direct
  return the cached method unchanged; interface re-resolves it against the interface table
  of the receiver's runtime class; super takes the entry of the dispatch table of the
  referring class's superclass at the cached method's slot; virtual takes the entry of the
  dispatch table of the receiver's runtime class at that slot. A missing receiver or
  superclass is a null dereference.
\<close>

definition dispatch_by_kind ::
  "services \<Rightarrow> heap \<Rightarrow> InvokeType \<Rightarrow> object_ref option \<Rightarrow> method_ref \<Rightarrow> method_ref
     \<Rightarrow> abort + method_ref option" where
  "dispatch_by_kind sv h type this_object referrer cached =
     (case type of
        kStatic \<Rightarrow> Inr (Some cached)
      | kDirect \<Rightarrow> Inr (Some cached)
      | kInterface \<Rightarrow>
          (case this_object of
             None \<Rightarrow> Inl NullPointerDereference
           | Some receiver \<Rightarrow>
               Inr (svc_FindVirtualMethodForInterface sv h (GetClass h receiver) cached))
      | kSuper \<Rightarrow>
          (case GetSuperClass h (Method_GetDeclaringClass h referrer) of
             None \<Rightarrow> Inl NullPointerDereference
           | Some super \<Rightarrow> Inr (Get (GetVTable h super) (GetMethodIndex h cached)))
      | kVirtual \<Rightarrow>
          (case this_object of
             None \<Rightarrow> Inl NullPointerDereference
           | Some receiver \<Rightarrow>
               Inr (Get (GetVTable h (GetClass h receiver)) (GetMethodIndex h cached))))"


text \<open>A query that returns its value, or aborts, and leaves the state as it is.\<close>

definition returning :: "state \<Rightarrow> abort + 'a \<Rightarrow> 'a result" where
  "returning s r = (case r of Inl a \<Rightarrow> Inl a | Inr v \<Rightarrow> Inr (v, s))"

subsection \<open>Monitor release of a synchronized native method\<close>

text \<open>
  The pending exception is saved over the monitor exit call. When an exception is pending
  after the monitor exit, the routine logs fatally; the message dumps the saved exception
  first, which is a null pointer when none was pending on entry.
\<close>

definition UnlockJniSynchronizedMethod :: "services \<Rightarrow> jobject \<Rightarrow> state \<Rightarrow> unit result" where
  "UnlockJniSynchronizedMethod sv locked s =
     (let saved_exception = (if IsExceptionPending s then GetException s else None);
          s1 = (if IsExceptionPending s then ClearException s else s)
      in
        case svc_DecodeJObject sv (heap s1) (self s1) locked of
          None \<Rightarrow> Inl NullPointerDereference
        | Some obj \<Rightarrow>
            (let s2 = MonitorExit sv obj s1 in
             if IsExceptionPending s2 then
               (case saved_exception of
                  None \<Rightarrow> Inl NullPointerDereference
                | Some e \<Rightarrow> Inl LogFatal)
             else
               (case saved_exception of
                  None \<Rightarrow> Inr ((), s2)
                | Some e \<Rightarrow> Inr ((), SetException e s2))))"

subsection \<open>Suspend check\<close>

text \<open>
  The loop of \<^verbatim>\<open>CheckSuspend\<close> runs until neither flag is set. It need not end (the
  services decide what the flags are after each round), so the result is an option and
  \<open>None\<close> stands for a call that does not return.
\<close>

partial_function (option) CheckSuspend :: "services \<Rightarrow> state \<Rightarrow> state option" where
  "CheckSuspend sv s =
     (if ReadFlag kCheckpointRequest s then
        CheckSuspend sv (AtomicClearFlag kCheckpointRequest (RunCheckpointFunction sv s))
      else if ReadFlag kSuspendRequest s then
        CheckSuspend sv (FullSuspendCheck sv s)
      else Some s)"

subsection \<open>A small heap for concrete runs\<close>

text \<open>
  Four classes: the root class 0, a concrete class 1 that extends it and overrides its one
  virtual method, an abstract class 2 that is not yet initialized, and an array class 3.
  Method 12 of class 1 is the caller. The dex cache holds a few resolved entries; every
  other slot is empty.
\<close>

definition demo_flags :: access_flags where
  "demo_flags = \<lparr>acc_static = False, acc_final = False, acc_visibility = Public\<rparr>"

definition demo_class :: "class_ref \<Rightarrow> mirror_Class" where
  "demo_class c =
     (if c = 1 then
        \<lparr>status = Initialized, instantiable = True, array_class = False,
         super_class = Some 0, vtable = [11], dex_cache = 0\<rparr>
      else if c = 2 then
        \<lparr>status = Uninitialized, instantiable = False, array_class = False,
         super_class = Some 0, vtable = [10], dex_cache = 0\<rparr>
      else if c = 3 then
        \<lparr>status = Initialized, instantiable = True, array_class = True,
         super_class = Some 0, vtable = [10], dex_cache = 0\<rparr>
      else
        \<lparr>status = Initialized, instantiable = True, array_class = False,
         super_class = None, vtable = [10], dex_cache = 0\<rparr>)"

definition demo_method :: "method_ref \<Rightarrow> mirror_AbstractMethod" where
  "demo_method m =
     (if m = 10 then
        \<lparr>method_declaring_class = 0, method_access_flags = demo_flags,
         method_index = 0, method_dex_cache = 0\<rparr>
      else if m = 11 then
        \<lparr>method_declaring_class = 1, method_access_flags = demo_flags,
         method_index = 0, method_dex_cache = 0\<rparr>
      else
        \<lparr>method_declaring_class = 1, method_access_flags = demo_flags\<lparr>acc_static := True\<rparr>,
         method_index = 1, method_dex_cache = 0\<rparr>)"

definition demo_field :: "field_ref \<Rightarrow> mirror_Field" where
  "demo_field f =
     \<lparr>field_declaring_class = 1, field_access_flags = demo_flags,
      field_is_primitive_type = True, field_size = 8\<rparr>"

definition demo_dex_cache :: DexCache where
  "demo_dex_cache =
     \<lparr>resolved_types = (\<lambda>i. if i = 1 then Some 2 else if i = 2 then Some 3
                             else if i = 3 then Some 1 else None),
      resolved_fields = (\<lambda>i. if i = 0 then Some 20 else None),
      resolved_methods = (\<lambda>i. if i = 0 then Some 10 else None)\<rparr>"

definition demo_heap :: heap where
  "demo_heap =
     \<lparr>class_at = demo_class, field_at = demo_field, method_at = demo_method,
      dex_cache_at = (\<lambda>_. demo_dex_cache), object_class = (\<lambda>_. 1)\<rparr>"

definition demo_thread :: thread where
  "demo_thread = \<lparr>exception = None, flags = (\<lambda>_. False)\<rparr>"

definition demo_state :: state where
  "demo_state = \<lparr>heap = demo_heap, self = demo_thread, calls = []\<rparr>"

text \<open>An initialization that succeeds and leaves the class initialized.\<close>

definition demo_EnsureInitialized :: "class_ref \<Rightarrow> bool \<Rightarrow> bool \<Rightarrow> world \<Rightarrow> bool \<times> world" where
  "demo_EnsureInitialized klass can_run_clinit can_init_statics w =
     (True, ((fst w)\<lparr>class_at := (class_at (fst w))
                (klass := (class_at (fst w) klass)\<lparr>status := Initialized\<rparr>)\<rparr>, snd w))"

text \<open>
  Services for the concrete runs: every access is allowed, type resolution finds the
  non-array class 1, allocation returns object 100, the checkpoint function and the monitor
  exit do nothing.
\<close>

definition demo_services :: services where
  "demo_services =
     \<lparr>kEnableDChecks = True,
      svc_CanAccess = (\<lambda>_ _ _. True),
      svc_CanAccessMember = (\<lambda>_ _ _ _. True),
      svc_CheckIncompatibleClassChange = (\<lambda>_ _ _. False),
      svc_FindVirtualMethodForInterface = (\<lambda>_ _ m. Some m),
      svc_PrettyDescriptor = (\<lambda>_ _. ''Shape''),
      svc_DecodeJObject = (\<lambda>_ _ r. Some r),
      svc_ResolveType = (\<lambda>_ _ w. (Some 1, w)),
      svc_EnsureInitialized = demo_EnsureInitialized,
      svc_AllocObject = (\<lambda>_ w. (Some 100, w)),
      svc_Array_Alloc = (\<lambda>_ _ w. (Some 100, w)),
      svc_ThrowIllegalAccessErrorClass = (\<lambda>_ _ w. ((), w)),
      svc_MonitorExit = (\<lambda>_ w. ((), w)),
      svc_RunCheckpointFunction = (\<lambda>w. ((), w)),
      svc_FullSuspendCheck = (\<lambda>w. ((), w))\<rparr>"

text \<open>A monitor exit that raises: the thread does not own the monitor.\<close>

definition throwing_MonitorExit :: "object_ref \<Rightarrow> world \<Rightarrow> unit \<times> world" where
  "throwing_MonitorExit obj w =
     ((), (fst w, (snd w)\<lparr>exception :=
             Some (Throwable ''Ljava/lang/IllegalMonitorStateException;'' ''unlock'')\<rparr>))"

definition throwing_services :: services where
  "throwing_services = demo_services\<lparr>svc_MonitorExit := throwing_MonitorExit\<rparr>"

text \<open>
  Services under which every access check fails: no class can access another class or its
  members, and every cached method is an incompatible class change.
\<close>

definition no_access_services :: services where
  "no_access_services =
     demo_services\<lparr>svc_CanAccess := (\<lambda>_ _ _. False),
                   svc_CanAccessMember := (\<lambda>_ _ _ _. False),
                   svc_CheckIncompatibleClassChange := (\<lambda>_ _ _. True)\<rparr>"

text \<open>
  Thread states with a checkpoint requested, and with both a checkpoint and a suspension
  requested; a suspend check that returns once the thread is resumed, with the suspend
  flag cleared.
\<close>

definition checkpoint_requested :: state where
  "checkpoint_requested =
     demo_state\<lparr>self := demo_thread\<lparr>flags := (\<lambda>flag. flag = kCheckpointRequest)\<rparr>\<rparr>"

definition both_requested :: state where
  "both_requested = demo_state\<lparr>self := demo_thread\<lparr>flags := (\<lambda>_. True)\<rparr>\<rparr>"

definition resuming_FullSuspendCheck :: "world \<Rightarrow> unit \<times> world" where
  "resuming_FullSuspendCheck w =
     ((), (fst w, (snd w)\<lparr>flags := (flags (snd w))(kSuspendRequest := False)\<rparr>))"

definition resuming_services :: services where
  "resuming_services = demo_services\<lparr>svc_FullSuspendCheck := resuming_FullSuspendCheck\<rparr>"



section \<open>Properties\<close>

declare decimal.simps [simp del]

subsection \<open>Array allocation with a negative length\<close>

text \<open>The decimal numeral of a value reads back as that value.\<close>

lemma digit_value_digit_char: "d < 10 \<Longrightarrow> digit_value (digit_char d) = d"
proof -
  assume "d < 10"
  then have "d \<in> {0, 1, 2, 3, 4, 5, 6, 7, 8, 9}" by auto
  then show ?thesis
    by (auto simp: digit_value_def digit_char_def)
qed

lemma digit_char_not_minus: "d < 10 \<Longrightarrow> digit_char d \<noteq> CHR ''-''"
proof -
  assume "d < 10"
  then have "d \<in> {0, 1, 2, 3, 4, 5, 6, 7, 8, 9}" by auto
  then show ?thesis
    by (auto simp: digit_char_def)
qed

lemma parse_decimal_snoc: "parse_decimal (cs @ [c]) = 10 * parse_decimal cs + digit_value c"
  by (simp add: parse_decimal_def)

lemma parse_decimal_decimal: "parse_decimal (decimal n) = n"
proof (induction n rule: decimal.induct)
  case (1 n)
  show ?case
  proof (cases "n < 10")
    case True
    then show ?thesis
      by (subst decimal.simps) (simp add: parse_decimal_def digit_value_digit_char)
  next
    case False
    with 1 have "parse_decimal (decimal (n div 10)) = n div 10" by simp
    with False show ?thesis
      by (subst decimal.simps) (simp add: parse_decimal_snoc digit_value_digit_char)
  qed
qed

lemma decimal_first: "\<exists>c cs. decimal n = c # cs \<and> c \<noteq> CHR ''-''"
proof (induction n rule: decimal.induct)
  case (1 n)
  show ?case
  proof (cases "n < 10")
    case True
    then show ?thesis
      by (subst decimal.simps) (simp add: digit_char_not_minus)
  next
    case False
    with 1 obtain c cs where "decimal (n div 10) = c # cs" "c \<noteq> CHR ''-''" by blast
    with False show ?thesis
      by (subst decimal.simps) simp
  qed
qed

lemma parse_d_format_d: "parse_d (format_d i) = i"
proof (cases "i < 0")
  case True
  then show ?thesis
    by (simp add: parse_d_def format_d_def parse_decimal_decimal)
next
  case False
  obtain c cs where "decimal (nat i) = c # cs" "c \<noteq> CHR ''-''"
    using decimal_first by blast
  moreover have "parse_decimal (decimal (nat i)) = nat i" by (rule parse_decimal_decimal)
  ultimately show ?thesis using False
    by (simp add: parse_d_def format_d_def)
qed

text \<open>
  C2. A call of \<^verbatim>\<open>AllocArrayFromCode\<close> with a negative \<^verbatim>\<open>component_count\<close> returns
  null with a pending \<^verbatim>\<open>NegativeArraySizeException\<close> whose message is the decimal numeral
  of the offending value, so that the message reads back as that value. The check comes
  first: no service is called (the call log is as before, so the type resolver was not
  run) and the heap is as before (no class was loaded).
\<close>

theorem AllocArrayFromCode_negative_count:
  assumes "sint component_count < 0"
  shows "\<exists>s' msg. AllocArrayFromCode sv type_idx method component_count access_check s =
                    Inr (None, s')
           \<and> exception (self s') = Some (Throwable ''Ljava/lang/NegativeArraySizeException;'' msg)
           \<and> msg = format_d (sint component_count)
           \<and> parse_d msg = sint component_count
           \<and> calls s' = calls s \<and> heap s' = heap s"
  using assms
  by (simp add: AllocArrayFromCode_def ThrowNewExceptionF_d_def ThrowNewException_def
      SetException_def parse_d_format_d)

theorem AllocArrayFromCode_negative_count_witness:
  "sint (- 1 :: 32 word) < 0 \<and>
   (\<exists>s'. AllocArrayFromCode demo_services 7 12 (- 1) True demo_state = Inr (None, s')
      \<and> exception (self s') = Some (Throwable ''Ljava/lang/NegativeArraySizeException;'' ''-1'')
      \<and> calls s' = [] \<and> heap s' = demo_heap)"
  using AllocArrayFromCode_negative_count [of "- 1" demo_services 7 12 True demo_state]
  by (auto simp: format_d_def decimal.simps digit_char_def demo_state_def)

subsection \<open>Monitor release when the monitor exit raises\<close>

lemma ClearException_idle: "\<not> IsExceptionPending s \<Longrightarrow> ClearException s = s"
  by (simp add: IsExceptionPending_def ClearException_def)

text \<open>
  C1, as stated, fails. With no exception pending on entry and a monitor exit that raises,
  \<^verbatim>\<open>UnlockJniSynchronizedMethod\<close> does not return: the test after the monitor exit sees
  the pending exception and takes the fatal branch.
\<close>

theorem UnlockJniSynchronizedMethod_exit_raises_counterexample:
  "\<not> IsExceptionPending demo_state \<and>
   IsExceptionPending (MonitorExit throwing_services 100 demo_state) \<and>
   UnlockJniSynchronizedMethod throwing_services 100 demo_state = Inl NullPointerDereference"
  by (simp add: UnlockJniSynchronizedMethod_def IsExceptionPending_def MonitorExit_def invoke_def
      throwing_services_def demo_services_def throwing_MonitorExit_def demo_state_def
      demo_thread_def GetException_def)

text \<open>
  C1, amended. Whenever the monitor exit leaves an exception pending, the routine aborts
  the process instead of returning, whether or not an exception was pending on entry (the
  monitor exit runs with the pending exception cleared).
\<close>

theorem UnlockJniSynchronizedMethod_exit_raises_aborts:
  assumes "svc_DecodeJObject sv (heap s) (self (ClearException s)) locked = Some obj"
      and "IsExceptionPending (MonitorExit sv obj (ClearException s))"
  shows "\<exists>a. UnlockJniSynchronizedMethod sv locked s = Inl a"
proof (cases "IsExceptionPending s")
  case True
  then obtain e where "GetException s = Some e"
    by (auto simp: IsExceptionPending_def GetException_def)
  with True assms show ?thesis
    by (simp add: UnlockJniSynchronizedMethod_def ClearException_def)
next
  case False
  then have "ClearException s = s" by (rule ClearException_idle)
  with False assms show ?thesis
    by (simp add: UnlockJniSynchronizedMethod_def)
qed

theorem UnlockJniSynchronizedMethod_exit_raises_aborts_witness:
  "svc_DecodeJObject throwing_services (heap demo_state) (self (ClearException demo_state)) 100
     = Some 100 \<and>
   IsExceptionPending (MonitorExit throwing_services 100 (ClearException demo_state)) \<and>
   (\<exists>a. UnlockJniSynchronizedMethod throwing_services 100 demo_state = Inl a)"
proof -
  have d: "svc_DecodeJObject throwing_services (heap demo_state)
             (self (ClearException demo_state)) 100 = Some 100"
    by (simp add: throwing_services_def demo_services_def)
  have p: "IsExceptionPending (MonitorExit throwing_services 100 (ClearException demo_state))"
    by (simp add: IsExceptionPending_def MonitorExit_def invoke_def ClearException_def
        throwing_services_def demo_services_def throwing_MonitorExit_def demo_state_def)
  from UnlockJniSynchronizedMethod_exit_raises_aborts [OF d p] d p show ?thesis by simp
qed

subsection \<open>The array-class check of array allocation\<close>

text \<open>
  C8, as stated, fails. Type index 3 is cached as class 1, which is not an array class.
  \<^verbatim>\<open>AllocArrayFromCode\<close> takes the class from the cache and hands it to the allocator:
  no check fails and the call returns.
\<close>

theorem AllocArrayFromCode_cached_class_unchecked_counterexample:
  "GetDexCacheResolvedTypes (heap demo_state) 12 3 = Some 1 \<and>
   \<not> IsArrayClass (heap demo_state) 1 \<and>
   AllocArrayFromCode demo_services 3 12 5 False demo_state =
     Inr (Some 100, demo_state\<lparr>calls := [CallArrayAlloc 1 5]\<rparr>)"
  by (simp add: AllocArrayFromCode_def AllocArrayFromCode_resolved_def GetDexCacheResolvedTypes_def
      IsArrayClass_def Array_Alloc_def invoke_def demo_state_def demo_heap_def demo_method_def
      demo_dex_cache_def demo_class_def demo_services_def)

text \<open>
  C8, amended. With a length that is not negative: when the type is not in the resolution
  cache and the slow-path resolution succeeds, a resolved class that is not an array class
  aborts the call (a failed \<^verbatim>\<open>CHECK\<close>, no managed exception), and an array class goes on
  to the access check and the allocation; a class found in the resolution cache goes on to
  them without that check.
\<close>

theorem AllocArrayFromCode_slow_path_array_check:
  assumes "\<not> sint component_count < 0"
  shows "(GetDexCacheResolvedTypes (heap s) method type_idx = None \<and>
          ResolveType sv type_idx method s = (Some klass, s1) \<longrightarrow>
            AllocArrayFromCode sv type_idx method component_count access_check s =
              (if IsArrayClass (heap s1) klass
               then AllocArrayFromCode_resolved sv method component_count access_check klass s1
               else Inl CheckFailed)) \<and>
         (GetDexCacheResolvedTypes (heap s) method type_idx = Some klass \<longrightarrow>
            AllocArrayFromCode sv type_idx method component_count access_check s =
              AllocArrayFromCode_resolved sv method component_count access_check klass s)"
  using assms by (simp add: AllocArrayFromCode_def)

theorem AllocArrayFromCode_slow_path_array_check_witness:
  "\<not> sint (5 :: 32 word) < 0 \<and>
   GetDexCacheResolvedTypes (heap demo_state) 12 7 = None \<and>
   ResolveType demo_services 7 12 demo_state =
     (Some 1, demo_state\<lparr>calls := [CallResolveType 7 12]\<rparr>) \<and>
   \<not> IsArrayClass (heap (demo_state\<lparr>calls := [CallResolveType 7 12]\<rparr>)) 1 \<and>
   AllocArrayFromCode demo_services 7 12 5 True demo_state = Inl CheckFailed"
proof -
  have a: "\<not> sint (5 :: 32 word) < 0" by simp
  have b: "GetDexCacheResolvedTypes (heap demo_state) 12 7 = None"
    by (simp add: GetDexCacheResolvedTypes_def demo_state_def demo_heap_def demo_dex_cache_def)
  have c: "ResolveType demo_services 7 12 demo_state =
             (Some 1, demo_state\<lparr>calls := [CallResolveType 7 12]\<rparr>)"
    by (simp add: ResolveType_def invoke_def demo_services_def demo_state_def)
  have d: "\<not> IsArrayClass (heap (demo_state\<lparr>calls := [CallResolveType 7 12]\<rparr>)) 1"
    by (simp add: IsArrayClass_def demo_state_def demo_heap_def demo_class_def)
  from AllocArrayFromCode_slow_path_array_check
         [OF a, of demo_state 12 7 demo_services 1 "demo_state\<lparr>calls := [CallResolveType 7 12]\<rparr>" True]
       a b c d
  show ?thesis by simp
qed

subsection \<open>Object allocation of a class that is not instantiable\<close>

text \<open>
  C5. Let \<open>klass\<close> be the class that \<^verbatim>\<open>AllocObjectFromCode\<close> resolves (from the cache, or
  from the type resolver on a miss), in the state \<open>s1\<close> after that resolution, and let it
  not be instantiable. With the access check on, the call returns null with a pending
  \<^verbatim>\<open>InstantiationError\<close> (whether or not the class is accessible), and nothing else
  changes after the resolution: the heap, so the initialization state of every class, is
  the same, and no service is called, so no initialization was triggered.
\<close>

theorem AllocObjectFromCode_not_instantiable:
  assumes "(case GetDexCacheResolvedTypes (heap s) method type_idx of
              None \<Rightarrow> ResolveType sv type_idx method s
            | Some k \<Rightarrow> (Some k, s)) = (Some klass, s1)"
      and "\<not> IsInstantiable (heap s1) klass"
  shows "\<exists>s'. AllocObjectFromCode sv type_idx method True s = Inr (None, s')
           \<and> exception (self s') =
               Some (Throwable ''Ljava/lang/InstantiationError;''
                       (svc_PrettyDescriptor sv (heap s1) klass))
           \<and> heap s' = heap s1
           \<and> status (class_at (heap s') klass) = status (class_at (heap s1) klass)
           \<and> calls s' = calls s1
           \<and> CallEnsureInitialized klass \<notin> set (drop (length (calls s)) (calls s'))"
proof (cases "GetDexCacheResolvedTypes (heap s) method type_idx")
  case None
  with assms(1) have r: "ResolveType sv type_idx method s = (Some klass, s1)" by simp
  then have "calls s1 = calls s @ [CallResolveType type_idx method]"
    by (auto simp: ResolveType_def invoke_def split: prod.splits)
  with None r assms(2) show ?thesis
    by (simp add: AllocObjectFromCode_def AllocObjectFromCode_resolved_def
        ThrowNewException_def SetException_def)
next
  case (Some k)
  with assms(1) have "k = klass" "s1 = s" by simp_all
  with Some assms(2) show ?thesis
    by (simp add: AllocObjectFromCode_def AllocObjectFromCode_resolved_def
        ThrowNewException_def SetException_def)
qed

theorem AllocObjectFromCode_not_instantiable_witness:
  "GetDexCacheResolvedTypes (heap demo_state) 12 1 = Some 2 \<and>
   \<not> IsInstantiable (heap demo_state) 2 \<and>
   status (class_at (heap demo_state) 2) = Uninitialized \<and>
   (\<exists>s'. AllocObjectFromCode no_access_services 1 12 True demo_state = Inr (None, s')
      \<and> exception (self s') = Some (Throwable ''Ljava/lang/InstantiationError;'' ''Shape'')
      \<and> status (class_at (heap s') 2) = Uninitialized
      \<and> calls s' = [])"
proof -
  have c: "GetDexCacheResolvedTypes (heap demo_state) 12 1 = Some 2"
    by (simp add: GetDexCacheResolvedTypes_def demo_state_def demo_heap_def demo_dex_cache_def)
  then have a: "(case GetDexCacheResolvedTypes (heap demo_state) 12 1 of
             None \<Rightarrow> ResolveType no_access_services 1 12 demo_state
           | Some k \<Rightarrow> (Some k, demo_state)) = (Some 2, demo_state)"
    by simp
  have b: "\<not> IsInstantiable (heap demo_state) 2"
    by (simp add: IsInstantiable_def demo_state_def demo_heap_def demo_class_def)
  have u: "status (class_at (heap demo_state) 2) = Uninitialized"
    by (simp add: demo_state_def demo_heap_def demo_class_def)
  have p: "svc_PrettyDescriptor no_access_services (heap demo_state) 2 = ''Shape''"
    by (simp add: no_access_services_def demo_services_def)
  have e: "calls demo_state = []"
    by (simp add: demo_state_def)
  from AllocObjectFromCode_not_instantiable [OF a b] c b u p e show ?thesis
    by auto
qed

subsection \<open>Fast-path method lookup: the dispatch step\<close>

text \<open>
  The gates before the dispatch step: a receiver unless the kind is static or direct, a
  cached method, and, with the access check on, no incompatible class change and a visible
  method. A call that passes them returns what the dispatch step returns.
\<close>

lemma FindMethodFast_reaches_dispatch:
  assumes "this_object \<noteq> None \<or> type = kStatic \<or> type = kDirect"
      and "GetResolvedMethod (GetDexCache (heap s) (Method_GetDeclaringClass (heap s) referrer))
             method_idx = Some cached"
      and "access_check \<longrightarrow>
             \<not> svc_CheckIncompatibleClassChange sv (heap s) cached type \<and>
             svc_CanAccess sv (heap s) (Method_GetDeclaringClass (heap s) referrer)
               (Method_GetDeclaringClass (heap s) cached) \<and>
             svc_CanAccessMember sv (heap s) (Method_GetDeclaringClass (heap s) referrer)
               (Method_GetDeclaringClass (heap s) cached) (Method_GetAccessFlags (heap s) cached)"
  shows "FindMethodFast sv method_idx this_object referrer access_check type s =
           returning s (dispatch_by_kind sv (heap s) type this_object referrer cached)"
  using assms
  by (cases type) (auto simp: FindMethodFast_def dispatch_by_kind_def returning_def
      split: option.splits)

text \<open>
  C3. A call of \<^verbatim>\<open>FindMethodFast\<close> that reaches the dispatch step returns a method that
  the dispatch kind alone selects: static and direct return the cached method; interface
  returns what the interface lookup of the receiver's class finds for it; super returns
  the entry of the vtable of the superclass of the referrer's class at the cached method's
  index; virtual returns the entry of the vtable of the receiver's class at that index.
  The state is returned as it was.
\<close>

theorem FindMethodFast_dispatch:
  assumes "this_object \<noteq> None \<or> type = kStatic \<or> type = kDirect"
      and "GetResolvedMethod (GetDexCache (heap s) (Method_GetDeclaringClass (heap s) referrer))
             method_idx = Some cached"
      and "access_check \<longrightarrow>
             \<not> svc_CheckIncompatibleClassChange sv (heap s) cached type \<and>
             svc_CanAccess sv (heap s) (Method_GetDeclaringClass (heap s) referrer)
               (Method_GetDeclaringClass (heap s) cached) \<and>
             svc_CanAccessMember sv (heap s) (Method_GetDeclaringClass (heap s) referrer)
               (Method_GetDeclaringClass (heap s) cached) (Method_GetAccessFlags (heap s) cached)"
  shows "(type = kStatic \<or> type = kDirect \<longrightarrow>
            FindMethodFast sv method_idx this_object referrer access_check type s =
              Inr (Some cached, s)) \<and>
         (type = kInterface \<longrightarrow> (\<forall>receiver. this_object = Some receiver \<longrightarrow>
            FindMethodFast sv method_idx this_object referrer access_check type s =
              Inr (svc_FindVirtualMethodForInterface sv (heap s) (GetClass (heap s) receiver) cached,
                   s))) \<and>
         (type = kSuper \<longrightarrow> (\<forall>super.
            GetSuperClass (heap s) (Method_GetDeclaringClass (heap s) referrer) = Some super \<longrightarrow>
            FindMethodFast sv method_idx this_object referrer access_check type s =
              Inr (Get (GetVTable (heap s) super) (GetMethodIndex (heap s) cached), s))) \<and>
         (type = kVirtual \<longrightarrow> (\<forall>receiver. this_object = Some receiver \<longrightarrow>
            FindMethodFast sv method_idx this_object referrer access_check type s =
              Inr (Get (GetVTable (heap s) (GetClass (heap s) receiver))
                     (GetMethodIndex (heap s) cached), s)))"
  unfolding FindMethodFast_reaches_dispatch [OF assms]
  by (auto simp: dispatch_by_kind_def returning_def)

lemma demo_resolved_method:
  "GetResolvedMethod (GetDexCache (heap demo_state) (Method_GetDeclaringClass (heap demo_state) 12)) 0
     = Some 10"
  by (simp add: GetResolvedMethod_def GetDexCache_def demo_state_def demo_heap_def
      demo_dex_cache_def)

theorem FindMethodFast_dispatch_witness:
  "FindMethodFast demo_services 0 (Some 100) 12 True kVirtual demo_state = Inr (Some 11, demo_state) \<and>
   FindMethodFast demo_services 0 (Some 100) 12 True kSuper demo_state = Inr (Some 10, demo_state) \<and>
   FindMethodFast demo_services 0 (Some 100) 12 True kInterface demo_state = Inr (Some 10, demo_state) \<and>
   FindMethodFast demo_services 0 None 12 True kStatic demo_state = Inr (Some 10, demo_state) \<and>
   FindMethodFast demo_services 0 None 12 True kDirect demo_state = Inr (Some 10, demo_state)"
proof -
  have checks: "True \<longrightarrow>
      \<not> svc_CheckIncompatibleClassChange demo_services (heap demo_state) 10 type \<and>
      svc_CanAccess demo_services (heap demo_state)
        (Method_GetDeclaringClass (heap demo_state) 12)
        (Method_GetDeclaringClass (heap demo_state) 10) \<and>
      svc_CanAccessMember demo_services (heap demo_state)
        (Method_GetDeclaringClass (heap demo_state) 12)
        (Method_GetDeclaringClass (heap demo_state) 10)
        (Method_GetAccessFlags (heap demo_state) 10)" for type
    by (simp add: demo_services_def)
  have receiver: "Some (100 :: object_ref) \<noteq> None \<or> type = kStatic \<or> type = kDirect" for type
    by simp
  have vtable_receiver:
    "Get (GetVTable (heap demo_state) (GetClass (heap demo_state) 100))
       (GetMethodIndex (heap demo_state) 10) = Some 11"
    by (simp add: Get_def GetVTable_def GetClass_def GetMethodIndex_def demo_state_def
        demo_heap_def demo_class_def demo_method_def)
  have super: "GetSuperClass (heap demo_state) (Method_GetDeclaringClass (heap demo_state) 12) = Some 0"
    by (simp add: GetSuperClass_def Method_GetDeclaringClass_def demo_state_def demo_heap_def
        demo_class_def demo_method_def)
  have vtable_super:
    "Get (GetVTable (heap demo_state) 0) (GetMethodIndex (heap demo_state) 10) = Some 10"
    by (simp add: Get_def GetVTable_def GetMethodIndex_def demo_state_def
        demo_heap_def demo_class_def demo_method_def)
  have interface: "svc_FindVirtualMethodForInterface demo_services (heap demo_state)
      (GetClass (heap demo_state) 100) 10 = Some 10"
    by (simp add: demo_services_def)
  from FindMethodFast_dispatch [OF receiver demo_resolved_method checks, of kVirtual]
       FindMethodFast_dispatch [OF receiver demo_resolved_method checks, of kSuper]
       FindMethodFast_dispatch [OF receiver demo_resolved_method checks, of kInterface]
       FindMethodFast_dispatch [OF _ demo_resolved_method checks, of None kStatic]
       FindMethodFast_dispatch [OF _ demo_resolved_method checks, of None kDirect]
       vtable_receiver super vtable_super interface
  show ?thesis by simp
qed

subsection \<open>Fast-path lookups on an empty cache slot\<close>

text \<open>
  C4. When the slot of the index in the resolution cache of the referrer's class is empty,
  \<^verbatim>\<open>FindFieldFast\<close> and \<^verbatim>\<open>FindMethodFast\<close> return null and the state they return is
  the state they were given: the thread has the pending exception it had (none, if none was
  pending), the heap with its caches and class states is the same, and no service was
  called.
\<close>

theorem fast_path_cache_miss:
  "(GetResolvedField (GetDexCache (heap s) (Method_GetDeclaringClass (heap s) referrer)) field_idx
      = None \<longrightarrow>
    FindFieldFast sv field_idx referrer ftype expected_size s = Inr (None, s)) \<and>
   (GetResolvedMethod (GetDexCache (heap s) (Method_GetDeclaringClass (heap s) referrer)) method_idx
      = None \<longrightarrow>
    FindMethodFast sv method_idx this_object referrer access_check type s = Inr (None, s))"
  by (simp add: FindFieldFast_def FindMethodFast_def)

theorem fast_path_cache_miss_witness:
  "GetResolvedField (GetDexCache (heap demo_state) (Method_GetDeclaringClass (heap demo_state) 12)) 5
     = None \<and>
   GetResolvedMethod (GetDexCache (heap demo_state) (Method_GetDeclaringClass (heap demo_state) 12)) 5
     = None \<and>
   FindFieldFast demo_services 5 12 InstancePrimitiveRead 8 demo_state = Inr (None, demo_state) \<and>
   FindMethodFast demo_services 5 (Some 100) 12 True kVirtual demo_state = Inr (None, demo_state) \<and>
   \<not> IsExceptionPending demo_state"
proof -
  have f: "GetResolvedField (GetDexCache (heap demo_state)
             (Method_GetDeclaringClass (heap demo_state) 12)) 5 = None"
    by (simp add: GetResolvedField_def GetDexCache_def demo_state_def demo_heap_def
        demo_dex_cache_def)
  have m: "GetResolvedMethod (GetDexCache (heap demo_state)
             (Method_GetDeclaringClass (heap demo_state) 12)) 5 = None"
    by (simp add: GetResolvedMethod_def GetDexCache_def demo_state_def demo_heap_def
        demo_dex_cache_def)
  have e: "\<not> IsExceptionPending demo_state"
    by (simp add: IsExceptionPending_def demo_state_def demo_thread_def)
  from fast_path_cache_miss [of demo_state 12 5 demo_services InstancePrimitiveRead 8 5
         "Some 100" True kVirtual] f m e
  show ?thesis by simp
qed

subsection \<open>Fast-path field lookup: classification and size\<close>

text \<open>
  C7. When the cached field's primitive-vs-object classification differs from the one the
  access kind asks for, or its storage size differs from \<^verbatim>\<open>expected_size\<close>,
  \<^verbatim>\<open>FindFieldFast\<close> returns null. So a field that it returns is the cached field and has
  the requested classification and size.
\<close>

theorem FindFieldFast_classification_and_size:
  "(\<forall>f. GetResolvedField (GetDexCache (heap s) (Method_GetDeclaringClass (heap s) referrer))
           field_idx = Some f \<and>
         (FieldHelper_IsPrimitiveType (heap s) f \<noteq> is_primitive ftype \<or>
          FieldHelper_FieldSize (heap s) f \<noteq> expected_size) \<longrightarrow>
         FindFieldFast sv field_idx referrer ftype expected_size s = Inr (None, s)) \<and>
   (\<forall>f s'. FindFieldFast sv field_idx referrer ftype expected_size s = Inr (Some f, s') \<longrightarrow>
         GetResolvedField (GetDexCache (heap s) (Method_GetDeclaringClass (heap s) referrer))
           field_idx = Some f \<and>
         FieldHelper_IsPrimitiveType (heap s) f = is_primitive ftype \<and>
         FieldHelper_FieldSize (heap s) f = expected_size)"
  by (auto simp: FindFieldFast_def Let_def split: option.splits if_splits)

lemma demo_resolved_field:
  "GetResolvedField (GetDexCache (heap demo_state) (Method_GetDeclaringClass (heap demo_state) 12)) 0
     = Some 20"
  by (simp add: GetResolvedField_def GetDexCache_def demo_state_def demo_heap_def
      demo_dex_cache_def)

lemma demo_FindFieldFast_hit:
  "FindFieldFast demo_services 0 12 InstancePrimitiveRead 8 demo_state = Inr (Some 20, demo_state)"
  by (simp add: FindFieldFast_def GetResolvedField_def GetDexCache_def demo_state_def
      demo_heap_def demo_dex_cache_def Field_GetDeclaringClass_def Method_GetDeclaringClass_def
      IsInitializing_def Field_IsStatic_def Field_IsFinal_def Field_GetAccessFlags_def
      FieldHelper_IsPrimitiveType_def FieldHelper_FieldSize_def demo_field_def demo_class_def
      demo_method_def demo_flags_def demo_services_def)

theorem FindFieldFast_classification_and_size_witness:
  "FieldHelper_FieldSize (heap demo_state) 20 = 8 \<and>
   FieldHelper_IsPrimitiveType (heap demo_state) 20 \<and>
   FindFieldFast demo_services 0 12 InstancePrimitiveRead 4 demo_state = Inr (None, demo_state) \<and>
   FindFieldFast demo_services 0 12 InstanceObjectRead 8 demo_state = Inr (None, demo_state) \<and>
   FindFieldFast demo_services 0 12 InstancePrimitiveRead 8 demo_state = Inr (Some 20, demo_state)"
proof -
  have size: "FieldHelper_FieldSize (heap demo_state) 20 = 8"
    by (simp add: FieldHelper_FieldSize_def demo_state_def demo_heap_def demo_field_def)
  have prim: "FieldHelper_IsPrimitiveType (heap demo_state) 20"
    by (simp add: FieldHelper_IsPrimitiveType_def demo_state_def demo_heap_def demo_field_def)
  from FindFieldFast_classification_and_size
         [of demo_state 12 0 InstancePrimitiveRead 4 demo_services, THEN conjunct1]
       demo_resolved_field size
  have wrong_size:
    "FindFieldFast demo_services 0 12 InstancePrimitiveRead 4 demo_state = Inr (None, demo_state)"
    by simp
  from FindFieldFast_classification_and_size
         [of demo_state 12 0 InstanceObjectRead 8 demo_services, THEN conjunct1]
       demo_resolved_field prim
  have wrong_kind:
    "FindFieldFast demo_services 0 12 InstanceObjectRead 8 demo_state = Inr (None, demo_state)"
    by simp
  from wrong_size wrong_kind size prim demo_FindFieldFast_hit show ?thesis by simp
qed

subsection \<open>The access check is optional for methods and not for fields\<close>



subsection \<open>Array allocation and class initialization\<close>

lemma invoke_calls: "calls (snd (invoke c f s)) = calls s @ [c]"
  by (simp add: invoke_def split: prod.splits)



lemma AllocArrayFromCode_resolved_calls:
  assumes "AllocArrayFromCode_resolved sv method component_count access_check klass s = Inr (r, s')"
  shows "calls s' = calls s @ [CallArrayAlloc klass component_count] \<or>
         calls s' = calls s @ [CallThrowIllegalAccessErrorClass
                                 (Method_GetDeclaringClass (heap s) method) klass]"
proof (cases "access_check \<and>
         \<not> svc_CanAccess sv (heap s) (Method_GetDeclaringClass (heap s) method) klass")
  case True
  with assms have "s' = ThrowIllegalAccessErrorClass sv
      (Method_GetDeclaringClass (heap s) method) klass s"
    by (auto simp: AllocArrayFromCode_resolved_def)
  then show ?thesis by (simp add: ThrowIllegalAccessErrorClass_def invoke_calls)
next
  case False
  with assms have "s' = snd (Array_Alloc sv klass component_count s)"
    by (auto simp: AllocArrayFromCode_resolved_def)
  then show ?thesis by (simp add: Array_Alloc_def invoke_calls)
qed


lemma negative_count_frame:
  "calls (ThrowNewExceptionF_d d v s) = calls s" "heap (ThrowNewExceptionF_d d v s) = heap s"
  by (simp_all add: ThrowNewExceptionF_d_def ThrowNewException_def SetException_def)

lemma dcheck_exception_pending_state:
  "dcheck_exception_pending sv s = Inr (r, s') \<Longrightarrow> s' = s"
  by (auto simp: dcheck_exception_pending_def split: if_splits)

lemma AllocArrayFromCode_calls:
  assumes "AllocArrayFromCode sv type_idx method component_count access_check s = Inr (r, s')"
  shows "\<exists>new. calls s' = calls s @ new \<and> (\<forall>k. CallEnsureInitialized k \<notin> set new)"
proof (cases "sint component_count < 0")
  case True
  with assms show ?thesis by (auto simp: AllocArrayFromCode_def negative_count_frame)
next
  case nonneg: False
  show ?thesis
  proof (cases "GetDexCacheResolvedTypes (heap s) method type_idx")
    case (Some klass)
    with nonneg assms
    have "AllocArrayFromCode_resolved sv method component_count access_check klass s = Inr (r, s')"
      by (simp add: AllocArrayFromCode_def)
    from AllocArrayFromCode_resolved_calls [OF this] show ?thesis by auto
  next
    case None
    obtain k s1 where res: "ResolveType sv type_idx method s = (k, s1)"
      by (cases "ResolveType sv type_idx method s")
    then have "s1 = snd (ResolveType sv type_idx method s)" by simp
    then have c1: "calls s1 = calls s @ [CallResolveType type_idx method]"
      by (simp add: ResolveType_def invoke_calls)
    show ?thesis
    proof (cases k)
      case None
      with \<open>GetDexCacheResolvedTypes (heap s) method type_idx = None\<close> nonneg res assms
      have "dcheck_exception_pending sv s1 = Inr (r, s')"
        by (simp add: AllocArrayFromCode_def)
      then have "s' = s1" by (rule dcheck_exception_pending_state)
      with c1 show ?thesis by auto
    next
      case (Some klass)
      with \<open>GetDexCacheResolvedTypes (heap s) method type_idx = None\<close> nonneg res assms
      have "AllocArrayFromCode_resolved sv method component_count access_check klass s1 = Inr (r, s')"
        by (simp add: AllocArrayFromCode_def split: if_splits)
      from AllocArrayFromCode_resolved_calls [OF this] c1 show ?thesis by auto
    qed
  qed
qed










subsection \<open>The suspend check\<close>

lemma RunCheckpointFunction_calls:
  "calls (RunCheckpointFunction sv s) = calls s @ [CallRunCheckpointFunction]"
  by (simp add: RunCheckpointFunction_def invoke_calls)

lemma FullSuspendCheck_calls:
  "calls (FullSuspendCheck sv s) = calls s @ [CallFullSuspendCheck]"
  by (simp add: FullSuspendCheck_def invoke_calls)

lemma FullSuspendCheck_flags:
  "flags (self (FullSuspendCheck sv s)) = flags (snd (snd (svc_FullSuspendCheck sv (heap s, self s))))"
  by (simp add: FullSuspendCheck_def invoke_def split: prod.splits)

lemma AtomicClearFlag_calls: "calls (AtomicClearFlag flag s) = calls s"
  by (simp add: AtomicClearFlag_def)

lemma ReadFlag_AtomicClearFlag:
  "ReadFlag flag' (AtomicClearFlag flag s) = (flag' \<noteq> flag \<and> ReadFlag flag' s)"
  by (simp add: ReadFlag_def AtomicClearFlag_def)

text \<open>
  What holds of every call of \<^verbatim>\<open>CheckSuspend\<close> that returns: the log has only grown, a
  checkpoint request seen on entry is served first, and neither flag is set on return.
\<close>

lemma CheckSuspend_returns:
  assumes "CheckSuspend sv s = Some s'"
  shows "(\<exists>new. calls s' = calls s @ new \<and>
            (ReadFlag kCheckpointRequest s \<longrightarrow> (\<exists>rest. new = CallRunCheckpointFunction # rest))) \<and>
         \<not> ReadFlag kCheckpointRequest s' \<and> \<not> ReadFlag kSuspendRequest s'"
  using assms
proof (induction sv s s' rule: CheckSuspend.raw_induct [rotated, consumes 1])
  case (1 loop sv s s')
  show ?case
  proof (cases "ReadFlag kCheckpointRequest s")
    case True
    with 1(2) have
      "loop sv (AtomicClearFlag kCheckpointRequest (RunCheckpointFunction sv s)) = Some s'"
      by simp
    from 1(1) [OF this] show ?thesis
      by (auto simp: AtomicClearFlag_calls RunCheckpointFunction_calls)
  next
    case no_checkpoint: False
    show ?thesis
    proof (cases "ReadFlag kSuspendRequest s")
      case True
      with no_checkpoint 1(2) have "loop sv (FullSuspendCheck sv s) = Some s'" by simp
      from 1(1) [OF this] no_checkpoint show ?thesis
        by (auto simp: FullSuspendCheck_calls)
    next
      case False
      with no_checkpoint 1(2) show ?thesis by simp
    qed
  qed
qed

text \<open>
  When the suspend check never raises the checkpoint flag (nobody requests a checkpoint
  again), the number of checkpoint runs of a call that returns is one if the flag was set
  on entry and zero if it was not.
\<close>

lemma CheckSuspend_checkpoint_runs:
  assumes "CheckSuspend sv s = Some s'"
      and "\<And>h t. \<not> flags t kCheckpointRequest \<Longrightarrow>
             \<not> flags (snd (snd (svc_FullSuspendCheck sv (h, t)))) kCheckpointRequest"
  shows "\<exists>new. calls s' = calls s @ new \<and>
           count_list new CallRunCheckpointFunction =
             (if ReadFlag kCheckpointRequest s then 1 else 0)"
  using assms
proof (induction sv s s' rule: CheckSuspend.raw_induct [rotated, consumes 1])
  case (1 loop sv s s')
  show ?case
  proof (cases "ReadFlag kCheckpointRequest s")
    case True
    let ?s1 = "AtomicClearFlag kCheckpointRequest (RunCheckpointFunction sv s)"
    from True 1(2) have "loop sv ?s1 = Some s'" by simp
    from 1(1) [OF this 1(3)] obtain new where
      "calls s' = calls ?s1 @ new" "count_list new CallRunCheckpointFunction = 0"
      by (auto simp: ReadFlag_AtomicClearFlag)
    with True show ?thesis
      by (simp add: AtomicClearFlag_calls RunCheckpointFunction_calls)
  next
    case no_checkpoint: False
    show ?thesis
    proof (cases "ReadFlag kSuspendRequest s")
      case True
      with no_checkpoint 1(2) have "loop sv (FullSuspendCheck sv s) = Some s'" by simp
      moreover from no_checkpoint have "\<not> ReadFlag kCheckpointRequest (FullSuspendCheck sv s)"
        by (simp add: ReadFlag_def FullSuspendCheck_flags 1(3))
      ultimately obtain new where
        "calls s' = calls (FullSuspendCheck sv s) @ new"
        "count_list new CallRunCheckpointFunction = 0"
        using 1(1) [OF _ 1(3)] by fastforce
      with no_checkpoint show ?thesis
        by (simp add: FullSuspendCheck_calls)
    next
      case False
      with no_checkpoint 1(2) show ?thesis by simp
    qed
  qed
qed

text \<open>
  One round of the loop, whether or not the call returns: a checkpoint request is served
  before anything else, and a suspend request is served when no checkpoint is requested.
\<close>

lemma CheckSuspend_checkpoint_round:
  "ReadFlag kCheckpointRequest s \<Longrightarrow>
     CheckSuspend sv s =
       CheckSuspend sv (AtomicClearFlag kCheckpointRequest (RunCheckpointFunction sv s))"
  by (subst CheckSuspend.simps) simp

lemma CheckSuspend_suspend_round:
  "\<not> ReadFlag kCheckpointRequest s \<Longrightarrow> ReadFlag kSuspendRequest s \<Longrightarrow>
     CheckSuspend sv s = CheckSuspend sv (FullSuspendCheck sv s)"
  by (subst CheckSuspend.simps) simp

lemma CheckSuspend_idle: 
  "\<not> ReadFlag kCheckpointRequest s \<Longrightarrow> \<not> ReadFlag kSuspendRequest s \<Longrightarrow>
     CheckSuspend sv s = Some s"
  by (subst CheckSuspend.simps) simp

text \<open>
  C6. Parts 1 to 5 hold of every call, returning or not; parts 6 and 7 are about the calls
  that return.
  (1) With neither flag set, \<^verbatim>\<open>CheckSuspend\<close> returns at once with the state as it was:
  no checkpoint function ran and no suspend check blocked.
  (2) With the checkpoint flag set and no suspend request after the checkpoint function,
  it returns after one run of the checkpoint function, with the flag cleared after the
  run.
  (3) In every round, a set checkpoint flag takes priority, whatever the suspend flag
  says: the call goes on as the call from the state after the checkpoint function and the
  clearing of the flag.
  (4) In a round with the checkpoint flag clear and the suspend flag set, the call goes on
  as the call from the state after the suspend check.
  (5) With both requests pending and a suspend check that returns with both flags clear,
  the call returns after the checkpoint function and then the suspend check, in this
  order.
  (6) A call that returns leaves both flags clear and has only added to the log; when it
  found the checkpoint flag set, the first call it added is the checkpoint function.
  (7) When the flag is requested once only (the suspend check never raises it again), a
  call that returns has run the checkpoint function exactly once.
\<close>

theorem CheckSuspend_protocol:
  "(\<not> ReadFlag kCheckpointRequest s \<and> \<not> ReadFlag kSuspendRequest s \<longrightarrow>
      CheckSuspend sv s = Some s) \<and>
   (ReadFlag kCheckpointRequest s \<and> \<not> ReadFlag kSuspendRequest (RunCheckpointFunction sv s) \<longrightarrow>
      CheckSuspend sv s = Some (AtomicClearFlag kCheckpointRequest (RunCheckpointFunction sv s)) \<and>
      calls (AtomicClearFlag kCheckpointRequest (RunCheckpointFunction sv s)) =
        calls s @ [CallRunCheckpointFunction] \<and>
      \<not> ReadFlag kCheckpointRequest
          (AtomicClearFlag kCheckpointRequest (RunCheckpointFunction sv s))) \<and>
   (ReadFlag kCheckpointRequest s \<longrightarrow>
      CheckSuspend sv s =
        CheckSuspend sv (AtomicClearFlag kCheckpointRequest (RunCheckpointFunction sv s))) \<and>
   (\<not> ReadFlag kCheckpointRequest s \<and> ReadFlag kSuspendRequest s \<longrightarrow>
      CheckSuspend sv s = CheckSuspend sv (FullSuspendCheck sv s)) \<and>
   (ReadFlag kCheckpointRequest s \<and> ReadFlag kSuspendRequest (RunCheckpointFunction sv s) \<and>
    \<not> ReadFlag kCheckpointRequest (FullSuspendCheck sv
         (AtomicClearFlag kCheckpointRequest (RunCheckpointFunction sv s))) \<and>
    \<not> ReadFlag kSuspendRequest (FullSuspendCheck sv
         (AtomicClearFlag kCheckpointRequest (RunCheckpointFunction sv s))) \<longrightarrow>
      CheckSuspend sv s =
        Some (FullSuspendCheck sv
                (AtomicClearFlag kCheckpointRequest (RunCheckpointFunction sv s))) \<and>
      calls (FullSuspendCheck sv
               (AtomicClearFlag kCheckpointRequest (RunCheckpointFunction sv s))) =
        calls s @ [CallRunCheckpointFunction, CallFullSuspendCheck]) \<and>
   (\<forall>s'. CheckSuspend sv s = Some s' \<longrightarrow>
      \<not> ReadFlag kCheckpointRequest s' \<and> \<not> ReadFlag kSuspendRequest s' \<and>
      (\<exists>new. calls s' = calls s @ new \<and>
         (ReadFlag kCheckpointRequest s \<longrightarrow> (\<exists>rest. new = CallRunCheckpointFunction # rest)))) \<and>
   (\<forall>s'. ReadFlag kCheckpointRequest s \<and> CheckSuspend sv s = Some s' \<and>
      (\<forall>h t. \<not> flags t kCheckpointRequest \<longrightarrow>
         \<not> flags (snd (snd (svc_FullSuspendCheck sv (h, t)))) kCheckpointRequest) \<longrightarrow>
      count_list (drop (length (calls s)) (calls s')) CallRunCheckpointFunction = 1)"
proof (intro conjI allI impI)
  assume "\<not> ReadFlag kCheckpointRequest s \<and> \<not> ReadFlag kSuspendRequest s"
  then show "CheckSuspend sv s = Some s"
    by (simp add: CheckSuspend_idle)
next
  let ?s1 = "AtomicClearFlag kCheckpointRequest (RunCheckpointFunction sv s)"
  assume a: "ReadFlag kCheckpointRequest s \<and>
    \<not> ReadFlag kSuspendRequest (RunCheckpointFunction sv s)"
  then have "CheckSuspend sv s = CheckSuspend sv ?s1"
    by (simp add: CheckSuspend_checkpoint_round)
  also from a have "\<dots> = Some ?s1"
    by (intro CheckSuspend_idle) (simp_all add: ReadFlag_AtomicClearFlag)
  finally show "CheckSuspend sv s = Some ?s1" .
next
  show "calls (AtomicClearFlag kCheckpointRequest (RunCheckpointFunction sv s)) =
      calls s @ [CallRunCheckpointFunction]"
    by (simp add: AtomicClearFlag_calls RunCheckpointFunction_calls)
next
  show "\<not> ReadFlag kCheckpointRequest
      (AtomicClearFlag kCheckpointRequest (RunCheckpointFunction sv s))"
    by (simp add: ReadFlag_AtomicClearFlag)
next
  assume "ReadFlag kCheckpointRequest s"
  then show "CheckSuspend sv s =
      CheckSuspend sv (AtomicClearFlag kCheckpointRequest (RunCheckpointFunction sv s))"
    by (rule CheckSuspend_checkpoint_round)
next
  assume "\<not> ReadFlag kCheckpointRequest s \<and> ReadFlag kSuspendRequest s"
  then show "CheckSuspend sv s = CheckSuspend sv (FullSuspendCheck sv s)"
    by (simp add: CheckSuspend_suspend_round)
next
  let ?s1 = "AtomicClearFlag kCheckpointRequest (RunCheckpointFunction sv s)"
  assume a: "ReadFlag kCheckpointRequest s \<and> ReadFlag kSuspendRequest (RunCheckpointFunction sv s) \<and>
    \<not> ReadFlag kCheckpointRequest (FullSuspendCheck sv ?s1) \<and>
    \<not> ReadFlag kSuspendRequest (FullSuspendCheck sv ?s1)"
  then have "CheckSuspend sv s = CheckSuspend sv ?s1"
    by (simp add: CheckSuspend_checkpoint_round)
  also from a have "\<dots> = CheckSuspend sv (FullSuspendCheck sv ?s1)"
    by (intro CheckSuspend_suspend_round) (simp_all add: ReadFlag_AtomicClearFlag)
  also from a have "\<dots> = Some (FullSuspendCheck sv ?s1)"
    by (intro CheckSuspend_idle) simp_all
  finally show "CheckSuspend sv s = Some (FullSuspendCheck sv ?s1)" .
next
  show "calls (FullSuspendCheck sv
               (AtomicClearFlag kCheckpointRequest (RunCheckpointFunction sv s))) =
        calls s @ [CallRunCheckpointFunction, CallFullSuspendCheck]"
    by (simp add: FullSuspendCheck_calls AtomicClearFlag_calls RunCheckpointFunction_calls)
next
  fix s'
  assume "CheckSuspend sv s = Some s'"
  note returns = CheckSuspend_returns [OF this]
  from returns show "\<not> ReadFlag kCheckpointRequest s'" by blast
  from returns show "\<not> ReadFlag kSuspendRequest s'" by blast
  from returns show "\<exists>new. calls s' = calls s @ new \<and>
      (ReadFlag kCheckpointRequest s \<longrightarrow> (\<exists>rest. new = CallRunCheckpointFunction # rest))"
    by blast
next
  fix s'
  assume a: "ReadFlag kCheckpointRequest s \<and> CheckSuspend sv s = Some s' \<and>
      (\<forall>h t. \<not> flags t kCheckpointRequest \<longrightarrow>
         \<not> flags (snd (snd (svc_FullSuspendCheck sv (h, t)))) kCheckpointRequest)"
  then have "\<exists>new. calls s' = calls s @ new \<and>
      count_list new CallRunCheckpointFunction = (if ReadFlag kCheckpointRequest s then 1 else 0)"
    by (intro CheckSuspend_checkpoint_runs) auto
  with a show "count_list (drop (length (calls s)) (calls s')) CallRunCheckpointFunction = 1"
    by auto
qed

lemma demo_RunCheckpointFunction:
  "RunCheckpointFunction demo_services s = s\<lparr>calls := calls s @ [CallRunCheckpointFunction]\<rparr>"
  "RunCheckpointFunction resuming_services s = s\<lparr>calls := calls s @ [CallRunCheckpointFunction]\<rparr>"
  by (simp_all add: RunCheckpointFunction_def invoke_def demo_services_def resuming_services_def)

lemma resuming_FullSuspendCheck_flags:
  "\<not> flags t kCheckpointRequest \<Longrightarrow>
     \<not> flags (snd (snd (svc_FullSuspendCheck resuming_services (h, t)))) kCheckpointRequest"
  by (simp add: resuming_services_def resuming_FullSuspendCheck_def)

theorem CheckSuspend_protocol_witness:
  "\<not> ReadFlag kCheckpointRequest demo_state \<and> \<not> ReadFlag kSuspendRequest demo_state \<and>
   CheckSuspend demo_services demo_state = Some demo_state \<and>
   ReadFlag kCheckpointRequest checkpoint_requested \<and>
   (\<exists>s'. CheckSuspend demo_services checkpoint_requested = Some s' \<and>
      calls s' = [CallRunCheckpointFunction] \<and> \<not> ReadFlag kCheckpointRequest s') \<and>
   ReadFlag kCheckpointRequest both_requested \<and> ReadFlag kSuspendRequest both_requested \<and>
   (\<exists>s'. CheckSuspend resuming_services both_requested = Some s' \<and>
      calls s' = [CallRunCheckpointFunction, CallFullSuspendCheck] \<and>
      count_list (calls s') CallRunCheckpointFunction = 1 \<and>
      \<not> ReadFlag kCheckpointRequest s' \<and> \<not> ReadFlag kSuspendRequest s')"
proof -
  have idle: "\<not> ReadFlag kCheckpointRequest demo_state \<and> \<not> ReadFlag kSuspendRequest demo_state"
    by (simp add: ReadFlag_def demo_state_def demo_thread_def)
  with CheckSuspend_protocol [of demo_state demo_services, THEN conjunct1]
  have first: "CheckSuspend demo_services demo_state = Some demo_state"
    by simp
  have requested: "ReadFlag kCheckpointRequest checkpoint_requested"
    by (simp add: ReadFlag_def checkpoint_requested_def)
  have "\<not> ReadFlag kSuspendRequest (RunCheckpointFunction demo_services checkpoint_requested)"
    by (simp add: demo_RunCheckpointFunction ReadFlag_def checkpoint_requested_def)
  with requested
    CheckSuspend_protocol [of checkpoint_requested demo_services, THEN conjunct2, THEN conjunct1]
  have second: "\<exists>s'. CheckSuspend demo_services checkpoint_requested = Some s' \<and>
      calls s' = [CallRunCheckpointFunction] \<and> \<not> ReadFlag kCheckpointRequest s'"
    by (simp add: checkpoint_requested_def demo_state_def)
  have both: "ReadFlag kCheckpointRequest both_requested" "ReadFlag kSuspendRequest both_requested"
    by (simp_all add: ReadFlag_def both_requested_def)
  let ?s1 = "AtomicClearFlag kCheckpointRequest (RunCheckpointFunction resuming_services both_requested)"
  let ?s2 = "FullSuspendCheck resuming_services ?s1"
  have still: "ReadFlag kSuspendRequest (RunCheckpointFunction resuming_services both_requested)"
    by (simp add: demo_RunCheckpointFunction ReadFlag_def both_requested_def)
  have flags2: "\<not> ReadFlag kCheckpointRequest ?s2" "\<not> ReadFlag kSuspendRequest ?s2"
    by (simp_all add: ReadFlag_def FullSuspendCheck_flags resuming_services_def
        resuming_FullSuspendCheck_def AtomicClearFlag_def)
  have start: "calls both_requested = []"
    by (simp add: both_requested_def demo_state_def)
  note claim = CheckSuspend_protocol [of both_requested resuming_services]
  note rest2 = claim [THEN conjunct2, THEN conjunct2]
  from rest2 [THEN conjunct2, THEN conjunct2, THEN conjunct1] both(1) still flags2 start
  have run: "CheckSuspend resuming_services both_requested = Some ?s2"
    and log: "calls ?s2 = [CallRunCheckpointFunction, CallFullSuspendCheck]"
    by simp_all
  from rest2 [THEN conjunct2, THEN conjunct2, THEN conjunct2, THEN conjunct2] both(1) run
    resuming_FullSuspendCheck_flags
  have "count_list (drop (length (calls both_requested)) (calls ?s2)) CallRunCheckpointFunction = 1"
    by blast
  with start have third: "count_list (calls ?s2) CallRunCheckpointFunction = 1"
    by simp
  from idle first requested second both run log third flags2 show ?thesis by blast
qed

end
